theory Spec2Isabelle
  imports Complex_Main
begin

section \<open>Python values\<close>

text \<open>
  The values \<open>response.json()\<close> can return, and the containers the client builds itself.
  \<open>PNone\<close> is Python's \<open>None\<close>; a dictionary keeps its items in insertion order.
\<close>

datatype pyval =
    PNone
  | PBool bool
  | PInt int
  | PFloat real
  | PStr string
  | PList "pyval list"
  | PDict "(string \<times> pyval) list"

text \<open>Truth value testing, as \<open>x or y\<close> applies it to \<open>x\<close>.\<close>

fun truthy :: "pyval \<Rightarrow> bool" where
  "truthy PNone = False"
| "truthy (PBool b) = b"
| "truthy (PInt i) = (i \<noteq> 0)"
| "truthy (PFloat r) = (r \<noteq> 0)"
| "truthy (PStr s) = (s \<noteq> [])"
| "truthy (PList xs) = (xs \<noteq> [])"
| "truthy (PDict kvs) = (kvs \<noteq> [])"

definition py_or :: "pyval \<Rightarrow> pyval \<Rightarrow> pyval" where
  "py_or x y = (if truthy x then x else y)"

text \<open>\<open>str(n)\<close> for an integer, as the f-strings of the client render it.\<close>

fun str_nat :: "nat \<Rightarrow> string" where
  "str_nat n =
     (if n < 10 then [''0123456789'' ! n]
      else str_nat (n div 10) @ [''0123456789'' ! (n mod 10)])"

declare str_nat.simps [simp del]

definition str_int :: "int \<Rightarrow> string" where
  "str_int i = (if i < 0 then ''-'' @ str_nat (nat (- i)) else str_nat (nat i))"

section \<open>Exceptions\<close>

text \<open>
  One constructor per exception class the client can meet, each carrying \<open>str(e)\<close>.
  \<open>Timeout\<close>, \<open>ConnectionError\<close>, \<open>HTTPError\<close> and \<open>RequestException\<close> are the classes of
  \<open>requests.exceptions\<close> (the last one stands for every other subclass of
  \<open>RequestException\<close>); \<open>Exception\<close> is the builtin the client raises itself;
  \<open>OtherException\<close> is any other subclass of \<open>Exception\<close>; \<open>BaseException\<close> is an
  exception outside \<open>Exception\<close> (\<open>KeyboardInterrupt\<close>, \<open>SystemExit\<close>).
\<close>

datatype exn =
    Timeout string
  | ConnectionError string
  | HTTPError string
  | RequestException string
  | KeyError string
  | OverflowError string
  | Exception string
  | OtherException string
  | BaseException string

fun str :: "exn \<Rightarrow> string" where
  "str (Timeout m) = m"
| "str (ConnectionError m) = m"
| "str (HTTPError m) = m"
| "str (RequestException m) = m"
| "str (KeyError m) = m"
| "str (OverflowError m) = m"
| "str (Exception m) = m"
| "str (OtherException m) = m"
| "str (BaseException m) = m"

text \<open>\<open>except requests.exceptions.Timeout\<close>\<close>

fun is_Timeout :: "exn \<Rightarrow> bool" where
  "is_Timeout (Timeout m) = True"
| "is_Timeout e = False"

text \<open>\<open>except requests.exceptions.RequestException\<close>\<close>

fun is_RequestException :: "exn \<Rightarrow> bool" where
  "is_RequestException (Timeout m) = True"
| "is_RequestException (ConnectionError m) = True"
| "is_RequestException (HTTPError m) = True"
| "is_RequestException (RequestException m) = True"
| "is_RequestException e = False"

text \<open>\<open>except Exception\<close>\<close>

fun is_Exception :: "exn \<Rightarrow> bool" where
  "is_Exception (BaseException m) = False"
| "is_Exception e = True"

section \<open>Requests, responses and the world outside the client\<close>

type_synonym headers = "(string \<times> string) list"
type_synonym params = "(string \<times> pyval) list"

datatype verb = GET | POST

text \<open>
  A request as the client hands it to its HTTP library: \<open>req_headers\<close> are the headers of
  the session or client it is sent through. The headers the library adds for a body
  (\<open>Content-Type\<close> and \<open>Content-Length\<close> of a POST) are not listed.
\<close>

record request =
  verb :: verb
  url :: string
  query :: "params option"
  json_body :: "params option"
  req_headers :: headers
  req_timeout :: int

text \<open>
  A response as the client reads it: the status line, the URL it answers, its \<open>Location\<close>
  header when it has one, and what \<open>response.json()\<close> does with the body (return the
  decoded value or raise).
\<close>

record response =
  status_code :: int
  reason :: string
  resp_url :: string
  location :: "string option"
  json :: "exn + pyval"

text \<open>
  The world: \<open>net w k r\<close> is what the network does with request \<open>r\<close> when \<open>k\<close> requests
  were sent before it (raise, or answer); \<open>now\<close> is the reading of \<open>datetime.now()\<close> in
  microseconds since 0001-01-01T00:00:00; the two version strings are those of the HTTP
  libraries, which appear in their default headers.
\<close>

record world =
  net :: "nat \<Rightarrow> request \<Rightarrow> exn + response"
  now :: int
  requests_version :: string
  httpx_version :: string

text \<open>
  What a call leaves behind: a request sent, a line printed, a coroutine object made by
  calling \<open>asyncio.sleep(d)\<close> and dropped without \<open>await\<close>, and a sleep that really
  blocks for \<open>d\<close> seconds.
\<close>

datatype event =
    Sent request
  | Printed string
  | SleepCoroutineDropped int
  | Slept int

fun sent :: "event list \<Rightarrow> request list" where
  "sent [] = []"
| "sent (Sent r # evs) = r # sent evs"
| "sent (ev # evs) = sent evs"

fun slept :: "event list \<Rightarrow> int list" where
  "slept [] = []"
| "slept (Slept d # evs) = d # slept evs"
| "slept (ev # evs) = slept evs"

fun dropped :: "event list \<Rightarrow> int list" where
  "dropped [] = []"
| "dropped (SleepCoroutineDropped d # evs) = d # dropped evs"
| "dropped (ev # evs) = dropped evs"

section \<open>config.py\<close>

record settings =
  BACKEND_API_URL :: string
  MAX_RETRIES :: int
  REQUEST_TIMEOUT :: int

text \<open>The values of \<open>Settings\<close> when the environment sets none of the variables.\<close>

definition default_settings :: settings where
  "default_settings =
     \<lparr>BACKEND_API_URL = ''http://localhost:8000'', MAX_RETRIES = 3, REQUEST_TIMEOUT = 30\<rparr>"

definition API_ENDPOINTS :: "(string \<times> string) list" where
  "API_ENDPOINTS =
     [(''health'', ''/health''),
      (''visitors_current'', ''/api/visitors/current''),
      (''visitors_sections'', ''/api/visitors/sections''),
      (''cashier_current'', ''/api/cashier/current''),
      (''cashier_history'', ''/api/cashier/history''),
      (''cashier_wait_time'', ''/api/cashier/wait-time''),
      (''heatmap'', ''/api/heatmap/''),
      (''predictions'', ''/api/predictions/''),
      (''daily_analytics'', ''/api/visitors/analytics/daily'')]"

text \<open>\<open>settings.API_ENDPOINTS[key]\<close>: a missing key raises \<open>KeyError\<close>.\<close>

definition endpoint_of :: "string \<Rightarrow> exn + string" where
  "endpoint_of key =
     (case map_of API_ENDPOINTS key of
        None \<Rightarrow> Inl (KeyError ([CHR 0x27] @ key @ [CHR 0x27]))
      | Some path \<Rightarrow> Inr path)"

section \<open>api\_client.py: the client and its session\<close>

text \<open>
  The attributes \<open>__init__\<close> sets and nothing reassigns are the record \<open>client\<close>.
  \<open>self._session\<close>, which the \<open>session\<close> property fills on first use, is part of the
  state threaded through the calls, with the trace of events: \<open>None\<close>, or the headers
  the session holds.
\<close>

record client =
  base_url :: string
  timeout :: int
  max_retries :: int

record state =
  session_headers :: "headers option"
  trace :: "event list"

text \<open>\<open>__init__\<close> copies three settings and checks none of them.\<close>

definition init :: "settings \<Rightarrow> exn + client \<times> state" where
  "init cfg =
     Inr (\<lparr>base_url = BACKEND_API_URL cfg, timeout = REQUEST_TIMEOUT cfg,
           max_retries = MAX_RETRIES cfg\<rparr>,
          \<lparr>session_headers = None, trace = []\<rparr>)"

text \<open>\<open>d[k] = v\<close> and \<open>d.update(e)\<close> on a dictionary kept as an association list.\<close>

fun dict_set :: "('k \<times> 'v) list \<Rightarrow> 'k \<Rightarrow> 'v \<Rightarrow> ('k \<times> 'v) list" where
  "dict_set [] k v = [(k, v)]"
| "dict_set ((k', v') # kvs) k v =
     (if k' = k then (k, v) # kvs else (k', v') # dict_set kvs k v)"

fun dict_update :: "('k \<times> 'v) list \<Rightarrow> ('k \<times> 'v) list \<Rightarrow> ('k \<times> 'v) list" where
  "dict_update d [] = d"
| "dict_update d ((k, v) # kvs) = dict_update (dict_set d k v) kvs"

text \<open>The headers a new \<open>requests.Session\<close> starts with (\<open>requests.utils.default_headers\<close>).\<close>

definition requests_default_headers :: "string \<Rightarrow> headers" where
  "requests_default_headers ver =
     [(''User-Agent'', ''python-requests/'' @ ver),
      (''Accept-Encoding'', ''gzip, deflate''),
      (''Accept'', ''*/*''),
      (''Connection'', ''keep-alive'')]"

text \<open>The headers of an \<open>httpx.AsyncClient\<close> built without a \<open>headers\<close> argument.\<close>

definition httpx_default_headers :: "string \<Rightarrow> headers" where
  "httpx_default_headers ver =
     [(''Accept'', ''*/*''),
      (''Accept-Encoding'', ''gzip, deflate''),
      (''Connection'', ''keep-alive''),
      (''User-Agent'', ''python-httpx/'' @ ver)]"

text \<open>The \<open>session\<close> property: lazy initialisation.\<close>

definition session :: "world \<Rightarrow> state \<Rightarrow> headers \<times> state" where
  "session w s =
     (case session_headers s of
        None \<Rightarrow>
          (let h = dict_update (requests_default_headers (requests_version w))
                     [(''User-Agent'', ''Retail-Chatbot/1.0''),
                      (''Accept'', ''application/json'')]
           in (h, s\<lparr>session_headers := Some h\<rparr>))
      | Some h \<Rightarrow> (h, s))"

text \<open>Sending a request: the network answers or raises, and the trace records it.\<close>

definition send :: "world \<Rightarrow> request \<Rightarrow> state \<Rightarrow> (exn + response) \<times> state" where
  "send w r s = (net w (length (sent (trace s))) r, s\<lparr>trace := trace s @ [Sent r]\<rparr>)"

text \<open>\<open>response.raise_for_status()\<close>: \<open>Some e\<close> when it raises.\<close>

definition raise_for_status :: "response \<Rightarrow> exn option" where
  "raise_for_status resp =
     (if 400 \<le> status_code resp \<and> status_code resp < 500 then
        Some (HTTPError (str_int (status_code resp) @ '' Client Error: '' @ reason resp
                         @ '' for url: '' @ resp_url resp))
      else if 500 \<le> status_code resp \<and> status_code resp < 600 then
        Some (HTTPError (str_int (status_code resp) @ '' Server Error: '' @ reason resp
                         @ '' for url: '' @ resp_url resp))
      else None)"

section \<open>api\_client.py: \_make\_request\<close>

text \<open>The body of the \<open>try\<close> block of one attempt.\<close>

definition attempt_request ::
  "world \<Rightarrow> client \<Rightarrow> string \<Rightarrow> params option \<Rightarrow> string \<Rightarrow> state \<Rightarrow> (exn + pyval) \<times> state"
where
  "attempt_request w c u ps method s =
     (case session w s of
        (h, s1) \<Rightarrow>
          (case send w
                  (if method = ''GET''
                   then \<lparr>verb = GET, url = u, query = ps, json_body = None,
                         req_headers = h, req_timeout = timeout c\<rparr>
                   else \<lparr>verb = POST, url = u, query = None, json_body = ps,
                         req_headers = h, req_timeout = timeout c\<rparr>)
                  s1 of
             (Inl e, s2) \<Rightarrow> (Inl e, s2)
           | (Inr resp, s2) \<Rightarrow>
               (case raise_for_status resp of
                  Some e \<Rightarrow> (Inl e, s2)
                | None \<Rightarrow> (json resp, s2))))"

text \<open>
  The loop \<open>for attempt in range(self.max_retries)\<close> from \<open>attempt\<close> on, and the
  \<open>return None\<close> after it. The two \<open>except\<close> clauses are tried in the order of the source.
  \<open>asyncio.sleep(...)\<close> is called in a function that is not \<open>async\<close> and without
  \<open>await\<close>: the call makes a coroutine object and drops it.
\<close>

function make_request_from ::
  "world \<Rightarrow> client \<Rightarrow> string \<Rightarrow> string \<Rightarrow> params option \<Rightarrow> string \<Rightarrow> int \<Rightarrow> state
     \<Rightarrow> (exn + pyval) \<times> state"
where
  "make_request_from w c endpoint u ps method attempt s =
     (if attempt < max_retries c then
        (case attempt_request w c u ps method s of
           (Inr v, s') \<Rightarrow> (Inr v, s')
         | (Inl e, s') \<Rightarrow>
             (if is_Timeout e then
                (if attempt = max_retries c - 1 then
                   (Inl (Exception (''Request to '' @ endpoint @ '' timed out after ''
                                    @ str_int (max_retries c) @ '' attempts'')), s')
                 else make_request_from w c endpoint u ps method (attempt + 1)
                        (s'\<lparr>trace := trace s' @ [SleepCoroutineDropped (1 * (attempt + 1))]\<rparr>))
              else if is_RequestException e then
                (if attempt = max_retries c - 1 then
                   (Inl (Exception (''Failed to call '' @ endpoint @ '': '' @ str e)), s')
                 else make_request_from w c endpoint u ps method (attempt + 1)
                        (s'\<lparr>trace := trace s' @ [SleepCoroutineDropped (1 * (attempt + 1))]\<rparr>))
              else (Inl e, s')))
      else (Inr PNone, s))"
  by pat_completeness auto
termination
  by (relation "measure (\<lambda>(w, c, endpoint, u, ps, method, attempt, s).
                  nat (max_retries c - attempt))") auto

declare make_request_from.simps [simp del]

definition make_request ::
  "world \<Rightarrow> client \<Rightarrow> string \<Rightarrow> params option \<Rightarrow> string \<Rightarrow> state \<Rightarrow> (exn + pyval) \<times> state"
where
  "make_request w c endpoint ps method s =
     make_request_from w c endpoint (base_url c @ endpoint) ps method 0 s"

section \<open>api\_client.py: the wrappers\<close>

text \<open>\<open>call or d\<close>: an exception of the call passes through, a falsy value becomes \<open>d\<close>.\<close>

definition or_default :: "(exn + pyval) \<times> state \<Rightarrow> pyval \<Rightarrow> (exn + pyval) \<times> state" where
  "or_default r d =
     (case r of
        (Inl e, s) \<Rightarrow> (Inl e, s)
      | (Inr v, s) \<Rightarrow> (Inr (py_or v d), s))"

text \<open>\<open>self._make_request(settings.API_ENDPOINTS[key] + suffix) or d\<close>\<close>

definition fetch_or ::
  "world \<Rightarrow> client \<Rightarrow> string \<Rightarrow> string \<Rightarrow> pyval \<Rightarrow> state \<Rightarrow> (exn + pyval) \<times> state"
where
  "fetch_or w c key suffix d s =
     (case endpoint_of key of
        Inl e \<Rightarrow> (Inl e, s)
      | Inr path \<Rightarrow> or_default (make_request w c (path @ suffix) None ''GET'' s) d)"

text \<open>
  \<open>check_backend_health\<close>: the lookup and the request are both inside the \<open>try\<close>, and
  \<open>except Exception\<close> turns what they raise into a status object.
\<close>

definition check_backend_health :: "world \<Rightarrow> client \<Rightarrow> state \<Rightarrow> (exn + pyval) \<times> state" where
  "check_backend_health w c s =
     (case (case endpoint_of ''health'' of
              Inl e \<Rightarrow> (Inl e, s)
            | Inr path \<Rightarrow> make_request w c path None ''GET'' s) of
        (Inl e, s') \<Rightarrow>
          (if is_Exception e
           then (Inr (PDict [(''status'', PStr ''unhealthy''), (''error'', PStr (str e))]), s')
           else (Inl e, s'))
      | (Inr v, s') \<Rightarrow> (Inr v, s'))"

definition get_current_visitors :: "world \<Rightarrow> client \<Rightarrow> state \<Rightarrow> (exn + pyval) \<times> state" where
  "get_current_visitors w c s = fetch_or w c ''visitors_current'' [] (PDict []) s"

definition get_section_traffic :: "world \<Rightarrow> client \<Rightarrow> state \<Rightarrow> (exn + pyval) \<times> state" where
  "get_section_traffic w c s = fetch_or w c ''visitors_sections'' [] (PList []) s"

definition get_daily_analytics :: "world \<Rightarrow> client \<Rightarrow> state \<Rightarrow> (exn + pyval) \<times> state" where
  "get_daily_analytics w c s = fetch_or w c ''daily_analytics'' [] (PDict []) s"

definition get_cashier_status :: "world \<Rightarrow> client \<Rightarrow> state \<Rightarrow> (exn + pyval) \<times> state" where
  "get_cashier_status w c s = fetch_or w c ''cashier_current'' [] (PDict []) s"

definition get_queue_history ::
  "world \<Rightarrow> client \<Rightarrow> int \<Rightarrow> state \<Rightarrow> (exn + pyval) \<times> state"
where
  "get_queue_history w c hours s =
     fetch_or w c ''cashier_history'' (''?hours='' @ str_int hours) (PList []) s"

definition get_wait_time :: "world \<Rightarrow> client \<Rightarrow> state \<Rightarrow> (exn + pyval) \<times> state" where
  "get_wait_time w c s = fetch_or w c ''cashier_wait_time'' [] (PDict []) s"

definition get_heatmap_data :: "world \<Rightarrow> client \<Rightarrow> state \<Rightarrow> (exn + pyval) \<times> state" where
  "get_heatmap_data w c s = fetch_or w c ''heatmap'' [] (PList []) s"

definition get_density_analysis :: "world \<Rightarrow> client \<Rightarrow> state \<Rightarrow> (exn + pyval) \<times> state" where
  "get_density_analysis w c s = fetch_or w c ''heatmap'' ''analysis'' (PDict []) s"

definition get_predictions :: "world \<Rightarrow> client \<Rightarrow> state \<Rightarrow> (exn + pyval) \<times> state" where
  "get_predictions w c s = fetch_or w c ''predictions'' [] (PList []) s"

definition get_traffic_forecast :: "world \<Rightarrow> client \<Rightarrow> state \<Rightarrow> (exn + pyval) \<times> state" where
  "get_traffic_forecast w c s = fetch_or w c ''predictions'' ''traffic/forecast'' (PDict []) s"

definition get_metric_prediction ::
  "world \<Rightarrow> client \<Rightarrow> string \<Rightarrow> string \<Rightarrow> state \<Rightarrow> (exn + pyval) \<times> state"
where
  "get_metric_prediction w c metric_type horizon s =
     fetch_or w c ''predictions'' (''metric/'' @ metric_type @ ''?horizon='' @ horizon)
       (PDict []) s"

section \<open>datetime, as get\_visitor\_trend uses it\<close>

text \<open>
  A naive \<open>datetime\<close> is the number of microseconds since \<open>datetime.min\<close>,
  0001-01-01T00:00:00; \<open>datetime.max\<close> is the last microsecond of year 9999, on day
  number 3652059. A \<open>timedelta\<close> is a number of microseconds of at most 999999999 days.
\<close>

definition valid_datetime :: "int \<Rightarrow> bool" where
  "valid_datetime t = (0 \<le> t \<and> t < 3652059 * 86400000000)"

text \<open>
  \<open>timedelta(hours=h)\<close>: the number of days must fit a C \<open>int\<close> and then be of magnitude
  at most 999999999.
\<close>

definition timedelta_hours :: "int \<Rightarrow> exn + int" where
  "timedelta_hours h =
     (if (h * 3600000000) div 86400000000 < - 2147483648
         \<or> 2147483647 < (h * 3600000000) div 86400000000
      then Inl (OverflowError ''Python int too large to convert to C int'')
      else if (h * 3600000000) div 86400000000 < - 999999999
         \<or> 999999999 < (h * 3600000000) div 86400000000
      then Inl (OverflowError (''days='' @ str_int ((h * 3600000000) div 86400000000)
                               @ ''; must have magnitude <= 999999999''))
      else Inr (h * 3600000000))"

text \<open>\<open>t - delta\<close> on a datetime\<close>

definition datetime_sub :: "int \<Rightarrow> int \<Rightarrow> exn + int" where
  "datetime_sub t delta =
     (if valid_datetime (t - delta) then Inr (t - delta)
      else Inl (OverflowError ''date value out of range''))"

definition days_before_month :: "int \<Rightarrow> int" where
  "days_before_month m = [-1, 0, 31, 59, 90, 120, 151, 181, 212, 243, 273, 304, 334] ! nat m"

definition days_in_month :: "int \<Rightarrow> int" where
  "days_in_month m = [-1, 31, 28, 31, 30, 31, 30, 31, 31, 30, 31, 30, 31] ! nat m"

text \<open>The date of a day number (1 is 0001-01-01), in the proleptic Gregorian calendar.\<close>

definition ord2ymd :: "int \<Rightarrow> int \<times> int \<times> int" where
  "ord2ymd ordinal =
     (let n400 = (ordinal - 1) div 146097; r400 = (ordinal - 1) mod 146097;
          n100 = r400 div 36524; r100 = r400 mod 36524;
          n4 = r100 div 1461; r4 = r100 mod 1461;
          n1 = r4 div 365; n = r4 mod 365;
          year = n400 * 400 + 1 + n100 * 100 + n4 * 4 + n1
      in if n1 = 4 \<or> n100 = 4 then (year - 1, 12, 31)
         else
           (let leapyear = (n1 = 3 \<and> (n4 \<noteq> 24 \<or> n100 = 3));
                month = (n + 50) div 32;
                preceding = days_before_month month
                              + (if month > 2 \<and> leapyear then 1 else 0)
            in if preceding > n
               then (year, month - 1,
                     n - (preceding - (days_in_month (month - 1)
                            + (if month - 1 = 2 \<and> leapyear then 1 else 0))) + 1)
               else (year, month, n - preceding + 1)))"

text \<open>\<open>"%0Nd" % i\<close> for a non-negative \<open>i\<close>\<close>

definition zpad :: "nat \<Rightarrow> int \<Rightarrow> string" where
  "zpad width i = replicate (width - length (str_int i)) CHR ''0'' @ str_int i"

text \<open>\<open>t.isoformat()\<close>: the microseconds are printed only when they are not zero.\<close>

definition isoformat :: "int \<Rightarrow> string" where
  "isoformat t =
     (case ord2ymd (t div 86400000000 + 1) of
        (y, m, d) \<Rightarrow>
          zpad 4 y @ ''-'' @ zpad 2 m @ ''-'' @ zpad 2 d @ ''T''
          @ zpad 2 ((t mod 86400000000) div 3600000000) @ '':''
          @ zpad 2 (((t mod 86400000000) div 60000000) mod 60) @ '':''
          @ zpad 2 (((t mod 86400000000) div 1000000) mod 60)
          @ (if t mod 1000000 \<noteq> 0 then ''.'' @ zpad 6 (t mod 1000000) else []))"

definition get_visitor_trend ::
  "world \<Rightarrow> client \<Rightarrow> int \<Rightarrow> state \<Rightarrow> (exn + pyval) \<times> state"
where
  "get_visitor_trend w c hours s =
     (case timedelta_hours hours of
        Inl e \<Rightarrow> (Inl e, s)
      | Inr delta \<Rightarrow>
          (case datetime_sub (now w) delta of
             Inl e \<Rightarrow> (Inl e, s)
           | Inr start_time \<Rightarrow>
               or_default
                 (make_request w c ''/api/visitors/range''
                    (Some [(''start_time'', PStr (isoformat start_time)),
                           (''end_time'', PStr (isoformat (now w)))])
                    ''GET'' s)
                 (PList [])))"

section \<open>api\_client.py: the asynchronous path\<close>

text \<open>
  \<open>raise_for_status\<close> of an httpx response raises \<open>HTTPStatusError\<close>, an \<open>Exception\<close>
  outside the classes of \<open>requests\<close>, for every status that is not 2xx. The message names
  the redirect location of a 301, 302, 303, 307 or 308 response that has one.
\<close>

definition httpx_raise_for_status :: "response \<Rightarrow> exn option" where
  "httpx_raise_for_status resp =
     (if 200 \<le> status_code resp \<and> status_code resp < 300 then None
      else Some (OtherException
        ((if status_code resp div 100 = 1 then ''Informational response''
          else if status_code resp div 100 = 3 then ''Redirect response''
          else if status_code resp div 100 = 4 then ''Client error''
          else if status_code resp div 100 = 5 then ''Server error''
          else ''Invalid status code'')
         @ '' '' @ [CHR 0x27] @ str_int (status_code resp) @ '' '' @ reason resp @ [CHR 0x27]
         @ '' for url '' @ [CHR 0x27] @ resp_url resp @ [CHR 0x27] @ [CHR 0x0A]
         @ (case (if status_code resp = 301 \<or> status_code resp = 302
                     \<or> status_code resp = 303 \<or> status_code resp = 307
                     \<or> status_code resp = 308
                  then location resp else None) of
              Some loc \<Rightarrow>
                ''Redirect location: '' @ [CHR 0x27] @ loc @ [CHR 0x27] @ [CHR 0x0A]
            | None \<Rightarrow> [])
         @ ''For more information check: ''
         @ ''https://developer.mozilla.org/en-US/docs/Web/HTTP/Status/''
         @ str_int (status_code resp))))"

text \<open>
  \<open>_make_async_request\<close>: one attempt with a new \<open>httpx.AsyncClient\<close>, which is given a
  timeout and no headers; every \<open>Exception\<close> is printed and becomes \<open>None\<close>.
\<close>

definition make_async_request ::
  "world \<Rightarrow> client \<Rightarrow> string \<Rightarrow> params option \<Rightarrow> state \<Rightarrow> (exn + pyval) \<times> state"
where
  "make_async_request w c endpoint ps s =
     (case send w \<lparr>verb = GET, url = base_url c @ endpoint, query = ps, json_body = None,
                   req_headers = httpx_default_headers (httpx_version w),
                   req_timeout = timeout c\<rparr> s of
        (out, s1) \<Rightarrow>
          (case (case out of
                   Inl e \<Rightarrow> Inl e
                 | Inr resp \<Rightarrow>
                     (case httpx_raise_for_status resp of
                        Some e \<Rightarrow> Inl e
                      | None \<Rightarrow> json resp)) of
             Inl e \<Rightarrow>
               (if is_Exception e
                then (Inr PNone,
                      s1\<lparr>trace := trace s1 @ [Printed (''Async request failed: '' @ str e)]\<rparr>)
                else (Inl e, s1))
           | Inr v \<Rightarrow> (Inr v, s1)))"

text \<open>
  \<open>get_multiple_metrics\<close>: \<open>asyncio.gather\<close> returns the results in the order of the
  tasks, whatever the order in which they finish, and raises what a task raises. The
  three fetches are run here in the order of the list.
\<close>

definition get_multiple_metrics :: "world \<Rightarrow> client \<Rightarrow> state \<Rightarrow> (exn + pyval) \<times> state" where
  "get_multiple_metrics w c s =
     (case endpoint_of ''visitors_current'' of
        Inl e \<Rightarrow> (Inl e, s)
      | Inr e0 \<Rightarrow>
     (case endpoint_of ''cashier_current'' of
        Inl e \<Rightarrow> (Inl e, s)
      | Inr e1 \<Rightarrow>
     (case endpoint_of ''heatmap'' of
        Inl e \<Rightarrow> (Inl e, s)
      | Inr e2 \<Rightarrow>
     (case make_async_request w c e0 None s of
        (Inl x, s0) \<Rightarrow> (Inl x, s0)
      | (Inr r0, s0) \<Rightarrow>
     (case make_async_request w c e1 None s0 of
        (Inl x, s1) \<Rightarrow> (Inl x, s1)
      | (Inr r1, s1) \<Rightarrow>
     (case make_async_request w c e2 None s1 of
        (Inl x, s2) \<Rightarrow> (Inl x, s2)
      | (Inr r2, s2) \<Rightarrow>
          (Inr (PDict [(''visitors'', r0), (''cashier'', r1), (''heatmap'', r2)]), s2)))))))"

section \<open>Outcomes of an attempt, and the worlds of the examples\<close>

text \<open>
  An attempt of \<open>_make_request\<close> fails at the transport: the call raises \<open>Timeout\<close>,
  \<open>ConnectionError\<close> or another \<open>RequestException\<close>, or the response has a 4xx or 5xx status.
\<close>

definition transport_fails :: "exn + response \<Rightarrow> bool" where
  "transport_fails out =
     (case out of
        Inl e \<Rightarrow> is_RequestException e
      | Inr resp \<Rightarrow> 400 \<le> status_code resp \<and> status_code resp < 600)"

text \<open>A 2xx response whose body decodes to \<open>v\<close>.\<close>

definition responds_with :: "exn + response \<Rightarrow> pyval \<Rightarrow> bool" where
  "responds_with out v =
     (case out of
        Inl e \<Rightarrow> False
      | Inr resp \<Rightarrow> 200 \<le> status_code resp \<and> status_code resp < 300 \<and> json resp = Inr v)"

text \<open>
  A fetch of the asynchronous path fails: the call raises an \<open>Exception\<close>, the status
  is not 2xx, or decoding the body raises an \<open>Exception\<close>.
\<close>

definition async_fetch_fails :: "exn + response \<Rightarrow> bool" where
  "async_fetch_fails out =
     (case out of
        Inl e \<Rightarrow> is_Exception e
      | Inr resp \<Rightarrow>
          (if 200 \<le> status_code resp \<and> status_code resp < 300
           then (case json resp of Inl e \<Rightarrow> is_Exception e | Inr v \<Rightarrow> False)
           else True))"

definition fresh :: state where
  "fresh = \<lparr>session_headers = None, trace = []\<rparr>"

definition client3 :: client where
  "client3 = \<lparr>base_url = ''http://localhost:8000'', timeout = 30, max_retries = 3\<rparr>"

definition client0 :: client where
  "client0 = \<lparr>base_url = ''http://localhost:8000'', timeout = 30, max_retries = 0\<rparr>"

text \<open>2024-01-01T12:00:00: day number 738886, twelve hours in.\<close>

definition noon_2024 :: int where
  "noon_2024 = 738885 * 86400000000 + 12 * 3600000000"

text \<open>A backend that cannot be reached: every request times out.\<close>

definition down_world :: world where
  "down_world =
     \<lparr>net = (\<lambda>k r. Inl (Timeout ''timed out'')), now = noon_2024,
      requests_version = ''2.31.0'', httpx_version = ''0.25.2''\<rparr>"

definition visitors_payload :: pyval where
  "visitors_payload =
     PDict [(''current_visitors'', PInt 42), (''timestamp'', PStr ''2024-01-01T00:00:00'')]"

definition ok_response :: "pyval \<Rightarrow> response" where
  "ok_response v =
     \<lparr>status_code = 200, reason = ''OK'', resp_url = [], location = None, json = Inr v\<rparr>"

text \<open>A backend that refuses the first connection and then answers every request.\<close>

definition flaky_world :: world where
  "flaky_world =
     \<lparr>net = (\<lambda>k r. if k = 0 then Inl (ConnectionError ''connection refused'')
                    else Inr (ok_response visitors_payload)),
      now = noon_2024, requests_version = ''2.31.0'', httpx_version = ''0.25.2''\<rparr>"

text \<open>A backend whose heatmap endpoint answers 500 and whose other endpoints answer.\<close>

definition heatmap_down_world :: world where
  "heatmap_down_world =
     \<lparr>net = (\<lambda>k r.
         if url r = ''http://localhost:8000/api/heatmap/''
         then Inr \<lparr>status_code = 500, reason = ''Internal Server Error'',
                   resp_url = url r, location = None, json = Inr PNone\<rparr>
         else if url r = ''http://localhost:8000/api/visitors/current''
         then Inr (ok_response visitors_payload)
         else Inr (ok_response (PDict [(''queue_length'', PInt 3)]))),
      now = noon_2024, requests_version = ''2.31.0'', httpx_version = ''0.25.2''\<rparr>"

text \<open>
  A backend whose cashier endpoint cannot be reached, whose heatmap endpoint answers with
  an empty list and whose other endpoints answer.
\<close>

definition cashier_down_world :: world where
  "cashier_down_world =
     \<lparr>net = (\<lambda>k r.
         if url r = ''http://localhost:8000/api/cashier/current''
         then Inl (OtherException ''All connection attempts failed'')
         else if url r = ''http://localhost:8000/api/heatmap/''
         then Inr (ok_response (PList []))
         else Inr (ok_response visitors_payload)),
      now = noon_2024, requests_version = ''2.31.0'', httpx_version = ''0.25.2''\<rparr>"

text \<open>A backend that answers every request with status 200 and the body \<open>[]\<close>.\<close>

definition empty_list_world :: world where
  "empty_list_world =
     \<lparr>net = (\<lambda>k r. Inr (ok_response (PList []))),
      now = noon_2024, requests_version = ''2.31.0'', httpx_version = ''0.25.2''\<rparr>"

section \<open>Lemmas on one attempt\<close>

lemma session_trace: "session w s = (h, s1) \<Longrightarrow> trace s1 = trace s"
  by (auto simp: session_def Let_def split: option.splits)

lemma sent_append: "sent (xs @ ys) = sent xs @ sent ys"
  by (induction xs rule: sent.induct) auto

lemma raise_for_status_fails:
  "400 \<le> status_code resp \<Longrightarrow> status_code resp < 600 \<Longrightarrow>
   \<exists>m. raise_for_status resp = Some (HTTPError m)"
  by (auto simp: raise_for_status_def)

lemma raise_for_status_ok:
  "200 \<le> status_code resp \<Longrightarrow> status_code resp < 300 \<Longrightarrow> raise_for_status resp = None"
  by (simp add: raise_for_status_def)

lemma attempt_request_fails:
  assumes "\<forall>r. transport_fails (net w (length (sent (trace s))) r)"
  shows "\<exists>e s'. attempt_request w c u ps meth s = (Inl e, s') \<and> is_RequestException e
           \<and> length (sent (trace s')) = Suc (length (sent (trace s)))"
proof -
  obtain h s1 where hs: "session w s = (h, s1)" by (cases "session w s")
  have tr: "trace s1 = trace s" using hs by (rule session_trace)
  define r where "r = (if meth = ''GET''
                   then \<lparr>verb = GET, url = u, query = ps, json_body = None,
                         req_headers = h, req_timeout = timeout c\<rparr>
                   else \<lparr>verb = POST, url = u, query = None, json_body = ps,
                         req_headers = h, req_timeout = timeout c\<rparr>)"
  have f: "transport_fails (net w (length (sent (trace s1))) r)" using assms tr by simp
  show ?thesis
  proof (cases "net w (length (sent (trace s1))) r")
    case (Inl e)
    then show ?thesis using f hs tr
      by (simp add: attempt_request_def send_def r_def[symmetric] transport_fails_def sent_append)
  next
    case (Inr resp)
    then have "400 \<le> status_code resp" "status_code resp < 600"
      using f by (simp_all add: transport_fails_def)
    then obtain m where "raise_for_status resp = Some (HTTPError m)"
      using raise_for_status_fails by blast
    then show ?thesis using Inr hs tr
      by (simp add: attempt_request_def send_def r_def[symmetric] sent_append)
  qed
qed

lemma attempt_request_succeeds:
  assumes "\<forall>r. responds_with (net w (length (sent (trace s))) r) v"
  shows "\<exists>s'. attempt_request w c u ps meth s = (Inr v, s')"
proof -
  obtain h s1 where hs: "session w s = (h, s1)" by (cases "session w s")
  have tr: "trace s1 = trace s" using hs by (rule session_trace)
  define r where "r = (if meth = ''GET''
                   then \<lparr>verb = GET, url = u, query = ps, json_body = None,
                         req_headers = h, req_timeout = timeout c\<rparr>
                   else \<lparr>verb = POST, url = u, query = None, json_body = ps,
                         req_headers = h, req_timeout = timeout c\<rparr>)"
  have f: "responds_with (net w (length (sent (trace s1))) r) v" using assms tr by simp
  then obtain resp where n: "net w (length (sent (trace s1))) r = Inr resp"
    and st: "200 \<le> status_code resp" "status_code resp < 300" and j: "json resp = Inr v"
    by (auto simp: responds_with_def split: sum.splits)
  show ?thesis using hs n j raise_for_status_ok[OF st]
    by (simp add: attempt_request_def send_def r_def[symmetric])
qed

section \<open>Lemmas on the retry loop\<close>

lemma make_request_from_failed_attempt:
  assumes a: "attempt_request w c u ps meth s = (Inl e, s')" and e: "is_RequestException e"
    and lt: "attempt < max_retries c"
  shows "make_request_from w c endpoint u ps meth attempt s =
      (if attempt = max_retries c - 1 then
         (Inl (Exception (if is_Timeout e
            then ''Request to '' @ endpoint @ '' timed out after ''
                   @ str_int (max_retries c) @ '' attempts''
            else ''Failed to call '' @ endpoint @ '': '' @ str e)), s')
       else make_request_from w c endpoint u ps meth (attempt + 1)
              (s'\<lparr>trace := trace s' @ [SleepCoroutineDropped (1 * (attempt + 1))]\<rparr>))"
  using a e lt by (subst make_request_from.simps) simp

lemma make_request_from_exhausts:
  "\<forall>k r. transport_fails (net w k r) \<Longrightarrow> attempt < max_retries c \<Longrightarrow>
     \<exists>m s'. make_request_from w c endpoint u ps meth attempt s = (Inl (Exception m), s')
       \<and> m \<noteq> []
       \<and> int (length (sent (trace s'))) = int (length (sent (trace s))) + (max_retries c - attempt)"
proof (induction w c endpoint u ps meth attempt s rule: make_request_from.induct)
  case (1 w c endpoint u ps meth attempt s)
  obtain e s' where a: "attempt_request w c u ps meth s = (Inl e, s')"
    and e: "is_RequestException e"
    and n: "length (sent (trace s')) = Suc (length (sent (trace s)))"
    using attempt_request_fails[of w s c u ps meth] "1.prems"(1) by blast
  note unf = make_request_from_failed_attempt[OF a e "1.prems"(2), of endpoint]
  show ?case
  proof (cases "attempt = max_retries c - 1")
    case True
    have "make_request_from w c endpoint u ps meth attempt s =
         (Inl (Exception (if is_Timeout e
            then ''Request to '' @ endpoint @ '' timed out after ''
                   @ str_int (max_retries c) @ '' attempts''
            else ''Failed to call '' @ endpoint @ '': '' @ str e)), s')"
      using unf True by simp
    moreover have "int (length (sent (trace s'))) =
                     int (length (sent (trace s))) + (max_retries c - attempt)"
      using n True by simp
    moreover have "(if is_Timeout e
            then ''Request to '' @ endpoint @ '' timed out after ''
                   @ str_int (max_retries c) @ '' attempts''
            else ''Failed to call '' @ endpoint @ '': '' @ str e) \<noteq> []"
      by simp
    ultimately show ?thesis by blast
  next
    case False
    let ?s = "s'\<lparr>trace := trace s' @ [SleepCoroutineDropped (1 * (attempt + 1))]\<rparr>"
    have lt: "attempt + 1 < max_retries c" using False "1.prems"(2) by simp
    have ih: "\<exists>m s''. make_request_from w c endpoint u ps meth (attempt + 1) ?s
                 = (Inl (Exception m), s'') \<and> m \<noteq> []
               \<and> int (length (sent (trace s''))) =
                   int (length (sent (trace ?s))) + (max_retries c - (attempt + 1))"
    proof (cases "is_Timeout e")
      case True
      show ?thesis
        by (rule "1.IH"(1)[OF "1.prems"(2) a[symmetric] refl True False "1.prems"(1) lt])
    next
      case nt: False
      show ?thesis
        by (rule "1.IH"(2)[OF "1.prems"(2) a[symmetric] refl nt e False "1.prems"(1) lt])
    qed
    then obtain m s'' where
      r: "make_request_from w c endpoint u ps meth (attempt + 1) ?s = (Inl (Exception m), s'')"
      and ne: "m \<noteq> []"
      and k: "int (length (sent (trace s''))) =
                int (length (sent (trace ?s))) + (max_retries c - (attempt + 1))"
      by blast
    have "make_request_from w c endpoint u ps meth attempt s = (Inl (Exception m), s'')"
      using unf r False by simp
    moreover have "int (length (sent (trace s''))) =
                     int (length (sent (trace s))) + (max_retries c - attempt)"
      using k n by (simp add: sent_append)
    ultimately show ?thesis using ne by blast
  qed
qed

lemma make_request_exhausts:
  assumes "1 \<le> max_retries c" and "\<forall>k r. transport_fails (net w k r)"
  shows "\<exists>m s'. make_request w c endpoint ps meth s = (Inl (Exception m), s') \<and> m \<noteq> []
           \<and> length (sent (trace s')) = length (sent (trace s)) + nat (max_retries c)"
proof -
  have "0 < max_retries c" using assms(1) by simp
  from make_request_from_exhausts[OF assms(2) this, of endpoint "base_url c @ endpoint" ps meth s]
  obtain m s' where "make_request w c endpoint ps meth s = (Inl (Exception m), s')" "m \<noteq> []"
    "int (length (sent (trace s'))) = int (length (sent (trace s))) + (max_retries c - 0)"
    unfolding make_request_def by blast
  moreover from this(3) assms(1)
  have "length (sent (trace s')) = length (sent (trace s)) + nat (max_retries c)" by linarith
  ultimately show ?thesis by blast
qed

lemma make_request_from_past_end:
  "max_retries c \<le> attempt \<Longrightarrow>
   make_request_from w c endpoint u ps meth attempt s = (Inr PNone, s)"
  by (subst make_request_from.simps) simp

lemma make_request_from_recovers:
  "\<forall>i<j. \<forall>r. transport_fails (net w (length (sent (trace s)) + i) r) \<Longrightarrow>
   \<forall>r. responds_with (net w (length (sent (trace s)) + j) r) v \<Longrightarrow>
   attempt + int j < max_retries c \<Longrightarrow>
   \<exists>s'. make_request_from w c endpoint u ps meth attempt s = (Inr v, s')"
proof (induction j arbitrary: attempt s)
  case 0
  then have "\<forall>r. responds_with (net w (length (sent (trace s))) r) v" by simp
  from attempt_request_succeeds[OF this, of c u ps meth]
  obtain s' where "attempt_request w c u ps meth s = (Inr v, s')" by blast
  then show ?case using "0.prems"(3)
    by (subst make_request_from.simps) simp
next
  case (Suc j)
  have "\<forall>r. transport_fails (net w (length (sent (trace s))) r)"
    using Suc.prems(1) by (metis add.right_neutral zero_less_Suc)
  from attempt_request_fails[OF this, of c u ps meth]
  obtain e s' where a: "attempt_request w c u ps meth s = (Inl e, s')"
    and e: "is_RequestException e"
    and n: "length (sent (trace s')) = Suc (length (sent (trace s)))"
    by blast
  let ?s = "s'\<lparr>trace := trace s' @ [SleepCoroutineDropped (1 * (attempt + 1))]\<rparr>"
  have len: "length (sent (trace ?s)) = Suc (length (sent (trace s)))"
    using n by (simp add: sent_append)
  have lt: "attempt < max_retries c" and ne: "attempt \<noteq> max_retries c - 1"
    using Suc.prems(3) by simp_all
  have f: "\<forall>i<j. \<forall>r. transport_fails (net w (length (sent (trace ?s)) + i) r)"
  proof (intro allI impI)
    fix i r assume "i < j"
    then have "Suc i < Suc j" by simp
    then have "transport_fails (net w (length (sent (trace s)) + Suc i) r)"
      using Suc.prems(1) by blast
    then show "transport_fails (net w (length (sent (trace ?s)) + i) r)"
      using len by simp
  qed
  have g: "\<forall>r. responds_with (net w (length (sent (trace ?s)) + j) r) v"
    using Suc.prems(2) len by simp
  have "attempt + 1 + int j < max_retries c" using Suc.prems(3) by simp
  from Suc.IH[OF f g this] obtain s'' where
    "make_request_from w c endpoint u ps meth (attempt + 1) ?s = (Inr v, s'')" by blast
  then show ?case
    using make_request_from_failed_attempt[OF a e lt, of endpoint] ne by simp
qed

section \<open>The retry loop makes exactly \<open>max_retries\<close> attempts\<close>

text \<open>
  Claim C1. For every \<open>max_retries = N \<ge> 1\<close>, a call of \<open>_make_request\<close> whose every
  attempt fails at the transport (a timeout, a connection error or another
  \<open>RequestException\<close> raised by the call, or a response with a 4xx or 5xx status, which
  \<open>raise_for_status\<close> turns into an \<open>HTTPError\<close>) sends exactly \<open>N\<close> requests and then
  raises the terminal \<open>Exception\<close>: the trace holds \<open>N\<close> more requests than before the
  call, neither fewer nor more.
\<close>

theorem make_request_exactly_max_retries_attempts:
  assumes "1 \<le> max_retries c" and "\<forall>k r. transport_fails (net w k r)"
  shows "\<exists>m s'. make_request w c endpoint ps meth s = (Inl (Exception m), s')
           \<and> length (sent (trace s')) = length (sent (trace s)) + nat (max_retries c)"
  using make_request_exhausts[OF assms, of endpoint ps meth s] by blast

theorem make_request_exactly_max_retries_attempts_witness:
  "1 \<le> max_retries client3 \<and> (\<forall>k r. transport_fails (net down_world k r))
   \<and> (\<exists>m s'. make_request down_world client3 ''/health'' None ''GET'' fresh
                = (Inl (Exception m), s')
             \<and> length (sent (trace s')) = 3)"
  using make_request_exactly_max_retries_attempts
          [of client3 down_world "''/health''" None "''GET''" fresh]
  by (simp add: client3_def down_world_def transport_fails_def fresh_def)

section \<open>Lemmas on the wrappers\<close>

lemma endpoint_of_known:
  "endpoint_of ''health'' = Inr ''/health''"
  "endpoint_of ''visitors_current'' = Inr ''/api/visitors/current''"
  "endpoint_of ''visitors_sections'' = Inr ''/api/visitors/sections''"
  "endpoint_of ''cashier_current'' = Inr ''/api/cashier/current''"
  "endpoint_of ''cashier_history'' = Inr ''/api/cashier/history''"
  "endpoint_of ''cashier_wait_time'' = Inr ''/api/cashier/wait-time''"
  "endpoint_of ''heatmap'' = Inr ''/api/heatmap/''"
  "endpoint_of ''predictions'' = Inr ''/api/predictions/''"
  "endpoint_of ''daily_analytics'' = Inr ''/api/visitors/analytics/daily''"
  by (simp_all add: endpoint_of_def API_ENDPOINTS_def)


lemma make_request_zero_retries:
  "max_retries c = 0 \<Longrightarrow> make_request w c endpoint ps meth s = (Inr PNone, s)"
  by (simp add: make_request_def make_request_from_past_end)

lemma fetch_or_zero_retries:
  assumes "max_retries c = 0" and "endpoint_of key = Inr path" and "\<not> truthy d"
  shows "fetch_or w c key suffix d s = (Inr d, s)"
  using assms by (simp add: fetch_or_def or_default_def make_request_zero_retries py_or_def)

lemma timedelta_hours_in_range:
  assumes "valid_datetime t" and "valid_datetime (t - h * 3600000000)"
  shows "timedelta_hours h = Inr (h * 3600000000)"
proof -
  have "- 3652059 * 24 < h" "h < 3652059 * 24"
    using assms by (simp_all add: valid_datetime_def)
  then have "- 999999999 \<le> (h * 3600000000) div 86400000000"
    and "(h * 3600000000) div 86400000000 \<le> 999999999"
    by simp_all
  then show ?thesis by (simp add: timedelta_hours_def)
qed

lemma get_visitor_trend_in_range:
  assumes "valid_datetime (now w)" and "valid_datetime (now w - hours * 3600000000)"
  shows "get_visitor_trend w c hours s =
           or_default
             (make_request w c ''/api/visitors/range''
                (Some [(''start_time'', PStr (isoformat (now w - hours * 3600000000))),
                       (''end_time'', PStr (isoformat (now w)))])
                ''GET'' s)
             (PList [])"
  using assms timedelta_hours_in_range[OF assms]
  by (simp add: get_visitor_trend_def datetime_sub_def)

lemma timedelta_hours_raises:
  "timedelta_hours h = Inl e \<Longrightarrow> \<exists>m. e = OverflowError m"
  by (auto simp: timedelta_hours_def split: if_splits)

lemma timedelta_hours_value:
  "timedelta_hours h = Inr delta \<Longrightarrow> delta = h * 3600000000"
  by (auto simp: timedelta_hours_def split: if_splits)



lemma get_visitor_trend_out_of_range:
  assumes "\<not> valid_datetime (now w - hours * 3600000000)"
  shows "\<exists>m. get_visitor_trend w c hours s = (Inl (OverflowError m), s)"
proof (cases "timedelta_hours hours")
  case (Inl e)
  then obtain m where "e = OverflowError m" using timedelta_hours_raises by blast
  then show ?thesis using Inl by (simp add: get_visitor_trend_def)
next
  case (Inr delta)
  then have "delta = hours * 3600000000" by (rule timedelta_hours_value)
  then have "datetime_sub (now w) delta = Inl (OverflowError ''date value out of range'')"
    using assms by (simp add: datetime_sub_def)
  then show ?thesis using Inr by (simp add: get_visitor_trend_def)
qed

section \<open>The health check reports a degraded status\<close>

text \<open>
  Claim C5. When every attempt against the backend fails at the transport and
  \<open>max_retries \<ge> 1\<close>, \<open>check_backend_health\<close> raises nothing: it returns the dictionary
  \<open>{"status": "unhealthy", "error": e}\<close>, where \<open>e\<close>, the text of the terminal exception of
  \<open>_make_request\<close>, is not empty.
\<close>

theorem check_backend_health_reports_unhealthy:
  assumes "1 \<le> max_retries c" and "\<forall>k r. transport_fails (net w k r)"
  shows "\<exists>e s'. check_backend_health w c s
                  = (Inr (PDict [(''status'', PStr ''unhealthy''), (''error'', PStr e)]), s')
               \<and> e \<noteq> []"
proof -
  obtain m s' where "make_request w c ''/health'' None ''GET'' s = (Inl (Exception m), s')"
    and "m \<noteq> []"
    using make_request_exhausts[OF assms, of "''/health''" None "''GET''" s] by blast
  then show ?thesis by (simp add: check_backend_health_def endpoint_of_known)
qed

theorem check_backend_health_reports_unhealthy_witness:
  "check_backend_health down_world client3 fresh
     = (Inr (PDict [(''status'', PStr ''unhealthy''),
                    (''error'', PStr ''Request to /health timed out after 3 attempts'')]),
        snd (check_backend_health down_world client3 fresh))
   \<and> ''Request to /health timed out after 3 attempts'' \<noteq> []"
  using check_backend_health_reports_unhealthy[of client3 down_world fresh]
  by (simp add: check_backend_health_def endpoint_of_known make_request_def
        make_request_from.simps attempt_request_def session_def Let_def send_def
        down_world_def client3_def fresh_def str_int_def str_nat.simps transport_fails_def)

section \<open>The wrappers on a transport that always fails\<close>




section \<open>A client with no retries\<close>

text \<open>
  Claim C10 says that with \<open>max_retries == 0\<close> every wrapper returns its empty default. At
  noon of 2024-01-01, \<open>get_visitor_trend\<close> with twenty million hours raises the
  \<open>OverflowError\<close> of its date arithmetic before it reaches \<open>_make_request\<close>, on a client
  with no retries as on any other.
\<close>

theorem zero_retries_returns_defaults_counterexample:
  "max_retries client0 = 0
   \<and> get_visitor_trend down_world client0 20000000 fresh
       = (Inl (OverflowError ''date value out of range''), fresh)"
  by (simp add: get_visitor_trend_def timedelta_hours_def datetime_sub_def valid_datetime_def
        down_world_def noon_2024_def client0_def)

text \<open>
  Claim C10, as the code has it. With \<open>max_retries = 0\<close> the loop of \<open>_make_request\<close> runs no
  iteration: the call returns \<open>None\<close> and leaves the state as it was, so no request is sent
  and nothing is raised. \<open>check_backend_health\<close> then returns \<open>None\<close>, not a status object,
  and every wrapper returns its empty default, \<open>{}\<close> or \<open>[]\<close>, with one exception:
  \<open>get_visitor_trend\<close> returns \<open>[]\<close> when its window is representable (\<open>now - hours\<close> is a
  datetime) and raises \<open>OverflowError\<close> when it is not. The clock reading is a datetime.
\<close>

theorem zero_retries_returns_defaults:
  assumes "max_retries c = 0" and "valid_datetime (now w)"
  shows "make_request w c endpoint ps meth s = (Inr PNone, s)
       \<and> check_backend_health w c s = (Inr PNone, s)
       \<and> get_current_visitors w c s = (Inr (PDict []), s)
       \<and> get_section_traffic w c s = (Inr (PList []), s)
       \<and> get_daily_analytics w c s = (Inr (PDict []), s)
       \<and> (if valid_datetime (now w - hours * 3600000000)
           then get_visitor_trend w c hours s = (Inr (PList []), s)
           else (\<exists>m. get_visitor_trend w c hours s = (Inl (OverflowError m), s)))
       \<and> get_cashier_status w c s = (Inr (PDict []), s)
       \<and> get_queue_history w c hours s = (Inr (PList []), s)
       \<and> get_wait_time w c s = (Inr (PDict []), s)
       \<and> get_heatmap_data w c s = (Inr (PList []), s)
       \<and> get_density_analysis w c s = (Inr (PDict []), s)
       \<and> get_predictions w c s = (Inr (PList []), s)
       \<and> get_traffic_forecast w c s = (Inr (PDict []), s)
       \<and> get_metric_prediction w c metric_type horizon s = (Inr (PDict []), s)"
proof -
  note z = make_request_zero_retries[OF assms(1)]
  have h: "check_backend_health w c s = (Inr PNone, s)"
    by (simp add: check_backend_health_def endpoint_of_known z)
  have t: "if valid_datetime (now w - hours * 3600000000)
           then get_visitor_trend w c hours s = (Inr (PList []), s)
           else (\<exists>m. get_visitor_trend w c hours s = (Inl (OverflowError m), s))"
  proof (cases "valid_datetime (now w - hours * 3600000000)")
    case True
    then show ?thesis
      by (simp add: get_visitor_trend_in_range[OF assms(2) True] z or_default_def py_or_def)
  next
    case False
    then show ?thesis using get_visitor_trend_out_of_range[OF False] by simp
  qed
  show ?thesis
    unfolding get_current_visitors_def get_section_traffic_def get_daily_analytics_def
      get_cashier_status_def get_queue_history_def get_wait_time_def get_heatmap_data_def
      get_density_analysis_def get_predictions_def get_traffic_forecast_def
      get_metric_prediction_def
    using z h t
    by (simp add: fetch_or_zero_retries[OF assms(1)] endpoint_of_known)
qed

theorem zero_retries_returns_defaults_witness:
  "make_request down_world client0 ''/health'' None ''GET'' fresh = (Inr PNone, fresh)
       \<and> check_backend_health down_world client0 fresh = (Inr PNone, fresh)
       \<and> get_current_visitors down_world client0 fresh = (Inr (PDict []), fresh)
       \<and> get_section_traffic down_world client0 fresh = (Inr (PList []), fresh)
       \<and> get_daily_analytics down_world client0 fresh = (Inr (PDict []), fresh)
       \<and> get_visitor_trend down_world client0 6 fresh = (Inr (PList []), fresh)
       \<and> (\<exists>m. get_visitor_trend down_world client0 20000000 fresh
                = (Inl (OverflowError m), fresh))
       \<and> get_cashier_status down_world client0 fresh = (Inr (PDict []), fresh)
       \<and> get_queue_history down_world client0 6 fresh = (Inr (PList []), fresh)
       \<and> get_wait_time down_world client0 fresh = (Inr (PDict []), fresh)
       \<and> get_heatmap_data down_world client0 fresh = (Inr (PList []), fresh)
       \<and> get_density_analysis down_world client0 fresh = (Inr (PDict []), fresh)
       \<and> get_predictions down_world client0 fresh = (Inr (PList []), fresh)
       \<and> get_traffic_forecast down_world client0 fresh = (Inr (PDict []), fresh)
       \<and> get_metric_prediction down_world client0 ''visitors'' ''4h'' fresh
           = (Inr (PDict []), fresh)"
proof -
  have a: "max_retries client0 = 0" by (simp add: client0_def)
  have b: "valid_datetime (now down_world)"
    by (simp add: down_world_def noon_2024_def valid_datetime_def)
  have c: "valid_datetime (now down_world - 6 * 3600000000)"
    by (simp add: down_world_def noon_2024_def valid_datetime_def)
  have d: "\<not> valid_datetime (now down_world - 20000000 * 3600000000)"
    by (simp add: down_world_def noon_2024_def valid_datetime_def)
  show ?thesis
    using zero_retries_returns_defaults
            [OF a b, of "''/health''" None "''GET''" fresh 6 "''visitors''" "''4h''"]
          zero_retries_returns_defaults
            [OF a b, of "''/health''" None "''GET''" fresh 20000000 "''visitors''" "''4h''"]
          c d
    by simp
qed

section \<open>Which successful payloads come back unchanged\<close>

text \<open>
  Claim C7 says that the client performs no lossy transformation of a successful payload.
  On a backend that answers every request with status 200 and the body \<open>[]\<close>,
  \<open>get_current_visitors\<close> returns \<open>{}\<close>: \<open>or {}\<close> replaces every falsy body.
\<close>

theorem get_current_visitors_lossy_counterexample:
  "fst (get_current_visitors empty_list_world client3 fresh) = Inr (PDict [])
   \<and> fst (make_request empty_list_world client3 ''/api/visitors/current'' None ''GET'' fresh)
       = Inr (PList [])
   \<and> PDict [] \<noteq> PList []"
  by (simp add: get_current_visitors_def fetch_or_def endpoint_of_known or_default_def
        py_or_def make_request_def make_request_from.simps attempt_request_def
        session_def Let_def send_def raise_for_status_def ok_response_def
        empty_list_world_def client3_def fresh_def)

text \<open>
  Claim C7, as the code has it. A fetch of \<open>get_current_visitors\<close> succeeds when, after
  \<open>j\<close> attempts that fail at the transport (\<open>j\<close> less than \<open>max_retries\<close>, possibly zero),
  the next attempt gets a 2xx response. If the body of that response decodes to \<open>v\<close>, the
  wrapper returns exactly \<open>v\<close> when \<open>v\<close> is truthy, as the object
  \<open>{"current_visitors": 42, "timestamp": "2024-01-01T00:00:00"}\<close> is, and \<open>{}\<close> when \<open>v\<close>
  is falsy (\<open>null\<close>, \<open>false\<close>, zero, an empty string, list or object).
\<close>

theorem get_current_visitors_round_trip:
  assumes "int j < max_retries c"
    and "\<forall>i<j. \<forall>r. transport_fails (net w (length (sent (trace s)) + i) r)"
    and "\<forall>r. responds_with (net w (length (sent (trace s)) + j) r) v"
  shows "fst (get_current_visitors w c s) = Inr (if truthy v then v else PDict [])"
proof -
  have "0 + int j < max_retries c" using assms(1) by simp
  from make_request_from_recovers[OF assms(2,3) this]
  obtain s' where "make_request w c ''/api/visitors/current'' None ''GET'' s = (Inr v, s')"
    unfolding make_request_def by blast
  then show ?thesis
    by (simp add: get_current_visitors_def fetch_or_def endpoint_of_known or_default_def
          py_or_def)
qed

theorem get_current_visitors_round_trip_witness:
  "fst (get_current_visitors flaky_world client3 fresh)
           = Inr (PDict [(''current_visitors'', PInt 42),
                         (''timestamp'', PStr ''2024-01-01T00:00:00'')])"
proof -
  have a: "int 1 < max_retries client3" by (simp add: client3_def)
  have b: "\<forall>i<1. \<forall>r. transport_fails (net flaky_world (length (sent (trace fresh)) + i) r)"
    by (simp add: flaky_world_def fresh_def transport_fails_def)
  have c: "\<forall>r. responds_with (net flaky_world (length (sent (trace fresh)) + 1) r)
               (PDict [(''current_visitors'', PInt 42),
                       (''timestamp'', PStr ''2024-01-01T00:00:00'')])"
    by (simp add: flaky_world_def fresh_def responds_with_def ok_response_def
          visitors_payload_def)
  show ?thesis using get_current_visitors_round_trip[OF a b c] by simp
qed

section \<open>Lemmas on the trace of a call\<close>

lemma slept_append: "slept (xs @ ys) = slept xs @ slept ys"
  by (induction xs rule: slept.induct) auto

lemma attempt_request_trace:
  assumes "attempt_request w c u ps meth s = (res, s')"
  shows "\<exists>r. trace s' = trace s @ [Sent r] \<and> url r = u \<and> req_timeout r = timeout c
           \<and> (meth = ''GET'' \<longrightarrow> verb r = GET \<and> query r = ps)"
proof -
  obtain h s1 where hs: "session w s = (h, s1)" by (cases "session w s")
  have tr: "trace s1 = trace s" using hs by (rule session_trace)
  define r where "r = (if meth = ''GET''
                   then \<lparr>verb = GET, url = u, query = ps, json_body = None,
                         req_headers = h, req_timeout = timeout c\<rparr>
                   else \<lparr>verb = POST, url = u, query = None, json_body = ps,
                         req_headers = h, req_timeout = timeout c\<rparr>)"
  have "trace s' = trace s @ [Sent r]"
    using assms hs tr
    by (auto simp: attempt_request_def send_def r_def[symmetric]
             split: sum.splits option.splits)
  moreover have "url r = u \<and> req_timeout r = timeout c
                   \<and> (meth = ''GET'' \<longrightarrow> verb r = GET \<and> query r = ps)"
    by (simp add: r_def)
  ultimately show ?thesis by blast
qed

lemma make_request_from_trace:
  "make_request_from w c endpoint u ps meth attempt s = (res, s') \<Longrightarrow>
   \<exists>rs. sent (trace s') = sent (trace s) @ rs
     \<and> (\<forall>r\<in>set rs. url r = u \<and> req_timeout r = timeout c
                      \<and> (meth = ''GET'' \<longrightarrow> verb r = GET \<and> query r = ps))
     \<and> (attempt < max_retries c \<longrightarrow> rs \<noteq> [])
     \<and> slept (trace s') = slept (trace s)"
proof (induction w c endpoint u ps meth attempt s arbitrary: res s'
         rule: make_request_from.induct)
  case (1 w c endpoint u ps meth attempt s)
  show ?case
  proof (cases "attempt < max_retries c")
    case False
    then have "res = Inr PNone" "s' = s"
      using "1.prems" by (simp_all add: make_request_from_past_end)
    then show ?thesis using False by simp
  next
    case lt: True
    obtain a s1 where att: "attempt_request w c u ps meth s = (a, s1)"
      by (cases "attempt_request w c u ps meth s")
    from attempt_request_trace[OF att] obtain r where
      tr: "trace s1 = trace s @ [Sent r]" and
      r: "url r = u \<and> req_timeout r = timeout c
            \<and> (meth = ''GET'' \<longrightarrow> verb r = GET \<and> query r = ps)"
      by blast
    let ?s = "s1\<lparr>trace := trace s1 @ [SleepCoroutineDropped (1 * (attempt + 1))]\<rparr>"
    have one: "s' = s1 \<Longrightarrow> ?thesis"
    proof -
      assume "s' = s1"
      then have "sent (trace s') = sent (trace s) @ [r]" "slept (trace s') = slept (trace s)"
        using tr by (simp_all add: sent_append slept_append)
      then show ?thesis using r by auto
    qed
    have more: "make_request_from w c endpoint u ps meth (attempt + 1) ?s = (res, s')
                  \<Longrightarrow> (\<And>res s'. make_request_from w c endpoint u ps meth (attempt + 1) ?s
                         = (res, s') \<Longrightarrow>
                       \<exists>rs. sent (trace s') = sent (trace ?s) @ rs
                         \<and> (\<forall>r\<in>set rs. url r = u \<and> req_timeout r = timeout c
                              \<and> (meth = ''GET'' \<longrightarrow> verb r = GET \<and> query r = ps))
                         \<and> (attempt + 1 < max_retries c \<longrightarrow> rs \<noteq> [])
                         \<and> slept (trace s') = slept (trace ?s))
                  \<Longrightarrow> ?thesis"
    proof -
      assume run: "make_request_from w c endpoint u ps meth (attempt + 1) ?s = (res, s')"
        and ih: "\<And>res s'. make_request_from w c endpoint u ps meth (attempt + 1) ?s
                         = (res, s') \<Longrightarrow>
                       \<exists>rs. sent (trace s') = sent (trace ?s) @ rs
                         \<and> (\<forall>r\<in>set rs. url r = u \<and> req_timeout r = timeout c
                              \<and> (meth = ''GET'' \<longrightarrow> verb r = GET \<and> query r = ps))
                         \<and> (attempt + 1 < max_retries c \<longrightarrow> rs \<noteq> [])
                         \<and> slept (trace s') = slept (trace ?s)"
      from ih[OF run] obtain rs where
        a: "sent (trace s') = sent (trace ?s) @ rs" and
        b: "\<forall>r\<in>set rs. url r = u \<and> req_timeout r = timeout c
                              \<and> (meth = ''GET'' \<longrightarrow> verb r = GET \<and> query r = ps)" and
        d: "slept (trace s') = slept (trace ?s)"
        by blast
      have "sent (trace s') = sent (trace s) @ (r # rs)"
        using a tr by (simp add: sent_append)
      moreover have "\<forall>x\<in>set (r # rs). url x = u \<and> req_timeout x = timeout c
                              \<and> (meth = ''GET'' \<longrightarrow> verb x = GET \<and> query x = ps)"
        using b r by simp
      moreover have "slept (trace s') = slept (trace s)"
        using d tr by (simp add: slept_append)
      ultimately show ?thesis by blast
    qed
    have unf: "(case a of
           Inr v \<Rightarrow> (Inr v, s1)
         | Inl e \<Rightarrow>
             (if is_Timeout e then
                (if attempt = max_retries c - 1 then
                   (Inl (Exception (''Request to '' @ endpoint @ '' timed out after ''
                                    @ str_int (max_retries c) @ '' attempts'')), s1)
                 else make_request_from w c endpoint u ps meth (attempt + 1) ?s)
              else if is_RequestException e then
                (if attempt = max_retries c - 1 then
                   (Inl (Exception (''Failed to call '' @ endpoint @ '': '' @ str e)), s1)
                 else make_request_from w c endpoint u ps meth (attempt + 1) ?s)
              else (Inl e, s1))) = (res, s')"
      using "1.prems" lt att by (subst (asm) make_request_from.simps) simp
    show ?thesis
    proof (cases a)
      case (Inr v)
      then show ?thesis using unf one by simp
    next
      case (Inl e)
      show ?thesis
      proof (cases "is_Timeout e")
        case t: True
        show ?thesis
        proof (cases "attempt = max_retries c - 1")
          case True
          then show ?thesis using unf Inl t one by simp
        next
          case False
          then have "make_request_from w c endpoint u ps meth (attempt + 1) ?s = (res, s')"
            using unf Inl t by simp
          then show ?thesis
            using more "1.IH"(1)[OF lt att[symmetric] Inl t False] by blast
        qed
      next
        case nt: False
        show ?thesis
        proof (cases "is_RequestException e")
          case re: True
          show ?thesis
          proof (cases "attempt = max_retries c - 1")
            case True
            then show ?thesis using unf Inl nt re one by simp
          next
            case False
            then have "make_request_from w c endpoint u ps meth (attempt + 1) ?s = (res, s')"
              using unf Inl nt re by simp
            then show ?thesis
              using more "1.IH"(2)[OF lt att[symmetric] Inl nt re False] by blast
          qed
        next
          case False
          then show ?thesis using unf Inl nt one by simp
        qed
      qed
    qed
  qed
qed

section \<open>The time window of get\_visitor\_trend\<close>

lemma or_default_state: "snd (or_default r d) = snd r"
  by (cases r) (auto simp: or_default_def split: sum.splits)

text \<open>
  Claim C8 says that the window is computed for every positive \<open>hours\<close>. At noon of
  2024-01-01, twenty million hours reach back before year 1: the subtraction raises
  \<open>OverflowError\<close> and no request is sent.
\<close>

theorem get_visitor_trend_window_counterexample:
  "0 < (20000000::int)
   \<and> get_visitor_trend down_world client3 20000000 fresh
       = (Inl (OverflowError ''date value out of range''), fresh)"
  by (simp add: get_visitor_trend_def timedelta_hours_def datetime_sub_def valid_datetime_def
        down_world_def noon_2024_def)

text \<open>
  Claim C8, as the code has it. For every positive \<open>hours\<close> that does not reach back before
  \<open>datetime.min\<close> (\<open>now - hours\<close> is not earlier than 0001-01-01T00:00:00),
  \<open>get_visitor_trend\<close> calls \<open>_make_request\<close> on \<open>/api/visitors/range\<close> with the parameters
  \<open>start_time\<close> and \<open>end_time\<close>, the ISO texts of two datetimes: \<open>end_time\<close> is the clock
  reading, \<open>start_time\<close> is exactly \<open>hours\<close> hours before it and so earlier. Every request the
  call sends is a GET that carries these two parameters, and with \<open>max_retries \<ge> 1\<close> at
  least one request is sent.
\<close>

theorem get_visitor_trend_window:
  assumes "valid_datetime (now w)" and "0 < hours" and "hours * 3600000000 \<le> now w"
  shows "\<exists>start_time rs.
           valid_datetime start_time
         \<and> start_time + hours * 3600000000 = now w
         \<and> start_time < now w
         \<and> get_visitor_trend w c hours s =
             or_default
               (make_request w c ''/api/visitors/range''
                  (Some [(''start_time'', PStr (isoformat start_time)),
                         (''end_time'', PStr (isoformat (now w)))])
                  ''GET'' s)
               (PList [])
         \<and> sent (trace (snd (get_visitor_trend w c hours s))) = sent (trace s) @ rs
         \<and> (\<forall>r\<in>set rs. verb r = GET
                \<and> url r = base_url c @ ''/api/visitors/range''
                \<and> query r = Some [(''start_time'', PStr (isoformat start_time)),
                                   (''end_time'', PStr (isoformat (now w)))])
         \<and> (1 \<le> max_retries c \<longrightarrow> rs \<noteq> [])"
proof -
  let ?start = "now w - hours * 3600000000"
  let ?ps = "Some [(''start_time'', PStr (isoformat ?start)),
                   (''end_time'', PStr (isoformat (now w)))]"
  have v: "valid_datetime ?start"
    using assms by (simp add: valid_datetime_def)
  have eq: "get_visitor_trend w c hours s =
              or_default (make_request w c ''/api/visitors/range'' ?ps ''GET'' s) (PList [])"
    by (rule get_visitor_trend_in_range[OF assms(1) v])
  obtain res s' where run: "make_request w c ''/api/visitors/range'' ?ps ''GET'' s = (res, s')"
    by (cases "make_request w c ''/api/visitors/range'' ?ps ''GET'' s")
  from make_request_from_trace[OF run[unfolded make_request_def]]
  obtain rs where a: "sent (trace s') = sent (trace s) @ rs"
    and b: "\<forall>r\<in>set rs. url r = base_url c @ ''/api/visitors/range''
               \<and> req_timeout r = timeout c
               \<and> (''GET'' = ''GET'' \<longrightarrow> verb r = GET \<and> query r = ?ps)"
    and d: "0 < max_retries c \<longrightarrow> rs \<noteq> []"
    by blast
  have "snd (get_visitor_trend w c hours s) = s'"
    using eq run by (simp add: or_default_state)
  then have "sent (trace (snd (get_visitor_trend w c hours s))) = sent (trace s) @ rs"
    using a by simp
  moreover have "\<forall>r\<in>set rs. verb r = GET
                \<and> url r = base_url c @ ''/api/visitors/range'' \<and> query r = ?ps"
    using b by simp
  moreover have "1 \<le> max_retries c \<longrightarrow> rs \<noteq> []" using d by simp
  moreover have "?start + hours * 3600000000 = now w" by simp
  moreover have "?start < now w" using assms(2) by simp
  ultimately show ?thesis using v eq by blast
qed

theorem get_visitor_trend_window_witness:
  "\<exists>start_time rs.
           valid_datetime start_time
         \<and> start_time + 6 * 3600000000 = now flaky_world
         \<and> start_time < now flaky_world
         \<and> get_visitor_trend flaky_world client3 6 fresh =
             or_default
               (make_request flaky_world client3 ''/api/visitors/range''
                  (Some [(''start_time'', PStr (isoformat start_time)),
                         (''end_time'', PStr (isoformat (now flaky_world)))])
                  ''GET'' fresh)
               (PList [])
         \<and> sent (trace (snd (get_visitor_trend flaky_world client3 6 fresh)))
             = sent (trace fresh) @ rs
         \<and> (\<forall>r\<in>set rs. verb r = GET
                \<and> url r = base_url client3 @ ''/api/visitors/range''
                \<and> query r = Some [(''start_time'', PStr (isoformat start_time)),
                                   (''end_time'', PStr (isoformat (now flaky_world)))])
         \<and> rs \<noteq> []"
proof -
  have a: "valid_datetime (now flaky_world)"
    by (simp add: flaky_world_def noon_2024_def valid_datetime_def)
  have b: "0 < (6::int)" by simp
  have c: "6 * 3600000000 \<le> now flaky_world"
    by (simp add: flaky_world_def noon_2024_def)
  have d: "1 \<le> max_retries client3" by (simp add: client3_def)
  show ?thesis
    using get_visitor_trend_window[OF a b c, of client3 fresh] d by simp
qed

text \<open>The same call, evaluated: the two requests it sends on the flaky backend.\<close>

lemma get_visitor_trend_six_hours_at_noon:
  "map query (sent (trace (snd (get_visitor_trend flaky_world client3 6 fresh))))
     = [Some [(''start_time'', PStr ''2024-01-01T06:00:00''),
              (''end_time'', PStr ''2024-01-01T12:00:00'')],
        Some [(''start_time'', PStr ''2024-01-01T06:00:00''),
              (''end_time'', PStr ''2024-01-01T12:00:00'')]]"
  by (simp add: get_visitor_trend_def timedelta_hours_def datetime_sub_def valid_datetime_def
        or_default_def make_request_def make_request_from.simps attempt_request_def
        session_def Let_def send_def raise_for_status_def ok_response_def
        flaky_world_def client3_def fresh_def noon_2024_def
        isoformat_def ord2ymd_def days_before_month_def days_in_month_def zpad_def
        str_int_def str_nat.simps)

section \<open>Construction checks nothing\<close>

text \<open>
  Claim C6 says that a configuration with \<open>max_retries == 0\<close> is refused at construction.
  \<open>__init__\<close> accepts it: the client is built and holds \<open>max_retries = 0\<close>.
\<close>

theorem init_zero_retries_counterexample:
  "init (default_settings\<lparr>MAX_RETRIES := 0\<rparr>)
     = Inr (\<lparr>base_url = ''http://localhost:8000'', timeout = 30, max_retries = 0\<rparr>,
            \<lparr>session_headers = None, trace = []\<rparr>)"
  by (simp add: init_def default_settings_def)

text \<open>
  Claim C6, as the code has it. Construction never raises and validates nothing: for every
  configuration, \<open>max_retries == 0\<close> included, it yields a client that holds the configured
  base URL, timeout and \<open>max_retries\<close> unchanged, with no session yet.
\<close>

theorem init_copies_settings:
  "init cfg = Inr (\<lparr>base_url = BACKEND_API_URL cfg, timeout = REQUEST_TIMEOUT cfg,
                    max_retries = MAX_RETRIES cfg\<rparr>,
                   \<lparr>session_headers = None, trace = []\<rparr>)"
  by (simp add: init_def)

section \<open>The batch fetch fills its slots independently\<close>

lemma make_async_request_succeeds:
  assumes "responds_with
             (net w (length (sent (trace s)))
                \<lparr>verb = GET, url = base_url c @ endpoint, query = ps, json_body = None,
                 req_headers = httpx_default_headers (httpx_version w),
                 req_timeout = timeout c\<rparr>) v"
  shows "\<exists>s'. make_async_request w c endpoint ps s = (Inr v, s')"
proof -
  let ?r = "\<lparr>verb = GET, url = base_url c @ endpoint, query = ps, json_body = None,
             req_headers = httpx_default_headers (httpx_version w),
             req_timeout = timeout c\<rparr>"
  from assms obtain resp where "net w (length (sent (trace s))) ?r = Inr resp"
    and "200 \<le> status_code resp" "status_code resp < 300" and "json resp = Inr v"
    by (auto simp: responds_with_def split: sum.splits)
  then show ?thesis
    by (simp add: make_async_request_def send_def httpx_raise_for_status_def)
qed

lemma make_async_request_fails:
  assumes "async_fetch_fails
             (net w (length (sent (trace s)))
                \<lparr>verb = GET, url = base_url c @ endpoint, query = ps, json_body = None,
                 req_headers = httpx_default_headers (httpx_version w),
                 req_timeout = timeout c\<rparr>)"
  shows "\<exists>s'. make_async_request w c endpoint ps s = (Inr PNone, s')"
proof -
  let ?r = "\<lparr>verb = GET, url = base_url c @ endpoint, query = ps, json_body = None,
             req_headers = httpx_default_headers (httpx_version w),
             req_timeout = timeout c\<rparr>"
  note f = assms
  show ?thesis
  proof (cases "net w (length (sent (trace s))) ?r")
    case (Inl e)
    then show ?thesis using f
      by (simp add: make_async_request_def send_def async_fetch_fails_def)
  next
    case (Inr resp)
    show ?thesis
    proof (cases "200 \<le> status_code resp \<and> status_code resp < 300")
      case True
      then obtain e where "json resp = Inl e" "is_Exception e"
        using f Inr by (auto simp: async_fetch_fails_def split: sum.splits)
      then show ?thesis using Inr True
        by (simp add: make_async_request_def send_def httpx_raise_for_status_def)
    next
      case False
      then have "status_code resp < 200 \<or> 300 \<le> status_code resp" by linarith
      then obtain m where "httpx_raise_for_status resp = Some (OtherException m)"
        by (auto simp: httpx_raise_for_status_def)
      then show ?thesis using Inr
        by (simp add: make_async_request_def send_def)
    qed
  qed
qed

lemma make_async_request_resolves:
  assumes "\<forall>k r. url r = base_url c @ endpoint
             \<longrightarrow> responds_with (net w k r) x \<or> (async_fetch_fails (net w k r) \<and> x = PNone)"
  shows "\<exists>s'. make_async_request w c endpoint ps s = (Inr x, s')"
proof -
  let ?r = "\<lparr>verb = GET, url = base_url c @ endpoint, query = ps, json_body = None,
             req_headers = httpx_default_headers (httpx_version w),
             req_timeout = timeout c\<rparr>"
  have "responds_with (net w (length (sent (trace s))) ?r) x
        \<or> (async_fetch_fails (net w (length (sent (trace s))) ?r) \<and> x = PNone)"
    using assms by simp
  then show ?thesis
    using make_async_request_succeeds[of w s c endpoint ps x]
      make_async_request_fails[of w s c endpoint ps]
    by blast
qed

text \<open>
  Claim C4. Each of the three fetches of \<open>get_multiple_metrics\<close> either gets a 2xx response
  with a body that decodes, or fails (the request raises an \<open>Exception\<close>, the status is not
  2xx, or decoding raises). Whatever the combination, the call raises nothing and returns
  the dictionary whose \<open>visitors\<close>, \<open>cashier\<close> and \<open>heatmap\<close> slots each hold what their own
  fetch gave: the decoded body when it succeeded, \<open>None\<close> when it failed. So a failure in
  one slot neither blocks nor alters the two others; in particular, when the heatmap fetch
  fails and the two others succeed with \<open>v\<close> and \<open>q\<close>, the result is
  \<open>{"visitors": v, "cashier": q, "heatmap": None}\<close>.
\<close>

theorem get_multiple_metrics_independent_slots:
  assumes "\<forall>k r. url r = base_url c @ ''/api/visitors/current''
             \<longrightarrow> responds_with (net w k r) x0 \<or> (async_fetch_fails (net w k r) \<and> x0 = PNone)"
    and "\<forall>k r. url r = base_url c @ ''/api/cashier/current''
             \<longrightarrow> responds_with (net w k r) x1 \<or> (async_fetch_fails (net w k r) \<and> x1 = PNone)"
    and "\<forall>k r. url r = base_url c @ ''/api/heatmap/''
             \<longrightarrow> responds_with (net w k r) x2 \<or> (async_fetch_fails (net w k r) \<and> x2 = PNone)"
  shows "fst (get_multiple_metrics w c s)
           = Inr (PDict [(''visitors'', x0), (''cashier'', x1), (''heatmap'', x2)])"
proof -
  obtain s0 where a: "make_async_request w c ''/api/visitors/current'' None s = (Inr x0, s0)"
    using make_async_request_resolves[OF assms(1)] by blast
  obtain s1 where b: "make_async_request w c ''/api/cashier/current'' None s0 = (Inr x1, s1)"
    using make_async_request_resolves[OF assms(2)] by blast
  obtain s2 where d: "make_async_request w c ''/api/heatmap/'' None s1 = (Inr x2, s2)"
    using make_async_request_resolves[OF assms(3)] by blast
  show ?thesis
    by (simp add: get_multiple_metrics_def endpoint_of_known a b d)
qed

theorem get_multiple_metrics_independent_slots_witness:
  "fst (get_multiple_metrics heatmap_down_world client3 fresh)
     = Inr (PDict [(''visitors'', visitors_payload),
                   (''cashier'', PDict [(''queue_length'', PInt 3)]),
                   (''heatmap'', PNone)])
   \<and> fst (get_multiple_metrics cashier_down_world client3 fresh)
     = Inr (PDict [(''visitors'', visitors_payload),
                   (''cashier'', PNone),
                   (''heatmap'', PList [])])"
proof -
  have a: "\<forall>k r. url r = base_url client3 @ ''/api/visitors/current''
             \<longrightarrow> responds_with (net heatmap_down_world k r) visitors_payload
                 \<or> (async_fetch_fails (net heatmap_down_world k r) \<and> visitors_payload = PNone)"
    by (simp add: client3_def heatmap_down_world_def responds_with_def ok_response_def)
  have b: "\<forall>k r. url r = base_url client3 @ ''/api/cashier/current''
             \<longrightarrow> responds_with (net heatmap_down_world k r) (PDict [(''queue_length'', PInt 3)])
                 \<or> (async_fetch_fails (net heatmap_down_world k r)
                     \<and> PDict [(''queue_length'', PInt 3)] = PNone)"
    by (simp add: client3_def heatmap_down_world_def responds_with_def ok_response_def)
  have d: "\<forall>k r. url r = base_url client3 @ ''/api/heatmap/''
             \<longrightarrow> responds_with (net heatmap_down_world k r) PNone
                 \<or> (async_fetch_fails (net heatmap_down_world k r) \<and> PNone = PNone)"
    by (simp add: client3_def heatmap_down_world_def async_fetch_fails_def)
  have a': "\<forall>k r. url r = base_url client3 @ ''/api/visitors/current''
             \<longrightarrow> responds_with (net cashier_down_world k r) visitors_payload
                 \<or> (async_fetch_fails (net cashier_down_world k r) \<and> visitors_payload = PNone)"
    by (simp add: client3_def cashier_down_world_def responds_with_def ok_response_def)
  have b': "\<forall>k r. url r = base_url client3 @ ''/api/cashier/current''
             \<longrightarrow> responds_with (net cashier_down_world k r) PNone
                 \<or> (async_fetch_fails (net cashier_down_world k r) \<and> PNone = PNone)"
    by (simp add: client3_def cashier_down_world_def async_fetch_fails_def)
  have d': "\<forall>k r. url r = base_url client3 @ ''/api/heatmap/''
             \<longrightarrow> responds_with (net cashier_down_world k r) (PList [])
                 \<or> (async_fetch_fails (net cashier_down_world k r) \<and> PList [] = PNone)"
    by (simp add: client3_def cashier_down_world_def responds_with_def ok_response_def)
  show ?thesis
    using get_multiple_metrics_independent_slots[OF a b d, of fresh]
      get_multiple_metrics_independent_slots[OF a' b' d', of fresh]
    by simp
qed

section \<open>The backoff never elapses\<close>

lemma make_request_never_sleeps:
  "slept (trace (snd (make_request w c endpoint ps meth s))) = slept (trace s)"
proof -
  obtain res s' where run: "make_request w c endpoint ps meth s = (res, s')"
    by (cases "make_request w c endpoint ps meth s")
  from make_request_from_trace[OF run[unfolded make_request_def]]
  have "slept (trace s') = slept (trace s)" by blast
  then show ?thesis using run by simp
qed

text \<open>
  Claim C3 says that a backoff sleep of \<open>k\<close> seconds elapses between attempt \<open>k\<close> and
  attempt \<open>k + 1\<close>. On the backend that times out at every attempt, with three retries,
  \<open>_make_request\<close> sends its three requests and between them only makes and drops the
  coroutine objects of \<open>asyncio.sleep(1)\<close> and \<open>asyncio.sleep(2)\<close>: no sleep is in the trace.
\<close>

theorem make_request_backoff_never_awaited:
  "slept (trace (snd (make_request down_world client3 ''/health'' None ''GET'' fresh))) = []
   \<and> dropped (trace (snd (make_request down_world client3 ''/health'' None ''GET'' fresh)))
       = [1, 2]
   \<and> length (sent (trace (snd (make_request down_world client3 ''/health'' None ''GET''
                                 fresh)))) = 3"
  by (simp add: make_request_def make_request_from.simps attempt_request_def
        session_def Let_def send_def down_world_def client3_def fresh_def)

section \<open>The headers of the two paths\<close>

text \<open>
  Claim C9 says that every request carries \<open>User-Agent\<close> and \<open>Accept: application/json\<close>.
  The requests of \<open>_make_request\<close> do, through the session. The three requests of
  \<open>get_multiple_metrics\<close> go through an \<open>httpx.AsyncClient\<close> that is given no headers:
  they carry the defaults of httpx, \<open>Accept: */*\<close> and the \<open>User-Agent\<close> of the library.
\<close>

theorem get_multiple_metrics_headers:
  "map (\<lambda>r. (map_of (req_headers r) ''User-Agent'', map_of (req_headers r) ''Accept''))
       (sent (trace (snd (get_multiple_metrics heatmap_down_world client3 fresh))))
     = [(Some ''python-httpx/0.25.2'', Some ''*/*''),
        (Some ''python-httpx/0.25.2'', Some ''*/*''),
        (Some ''python-httpx/0.25.2'', Some ''*/*'')]
   \<and> map (\<lambda>r. (map_of (req_headers r) ''User-Agent'', map_of (req_headers r) ''Accept''))
       (sent (trace (snd (get_current_visitors heatmap_down_world client3 fresh))))
     = [(Some ''Retail-Chatbot/1.0'', Some ''application/json'')]"
  by (simp add: get_multiple_metrics_def make_async_request_def httpx_raise_for_status_def
        httpx_default_headers_def endpoint_of_known
        get_current_visitors_def fetch_or_def or_default_def make_request_def
        make_request_from.simps attempt_request_def session_def Let_def send_def
        raise_for_status_def requests_default_headers_def ok_response_def
        heatmap_down_world_def client3_def fresh_def str_int_def str_nat.simps)

end
